theory Spec2Isabelle
  imports Complex_Main
begin

section \<open>Values and failures of the host\<close>

text \<open>
  The two scripts (\<^verbatim>\<open>space_scene.py\<close>, \<^verbatim>\<open>grand_flyby.py\<close>) drive a host application
  through its Python interface. Values handed to the host are booleans, numbers, enum
  identifiers, tuples of numbers and references to objects. Python floats are read as
  real numbers throughout.
\<close>

datatype pval = PBool bool | PNum real | PStr string | PVec "real list" | PRef string

text \<open>The exceptions an attribute store of the host can raise; all derive from
  Python's \<^verbatim>\<open>Exception\<close>.\<close>

datatype py_error = TypeError | AttributeError | RuntimeError

section \<open>Compatibility helpers\<close>

text \<open>
  A target (an object with attributes, or a node's \<^verbatim>\<open>inputs\<close> collection) is a map from
  names to slots. What storing a value into a slot does is the host's business: it is
  the parameter \<open>assign\<close>, which returns the updated slot or raises. A store that
  raises leaves the slot as it was.

  \<^verbatim>\<open>
  def safe_set(obj, prop, value):
      if hasattr(obj, prop):
          try:
              setattr(obj, prop, value)
          except Exception:
              pass
  \<close>
\<close>

definition safe_set ::
  "('s \<Rightarrow> pval \<Rightarrow> py_error + 's) \<Rightarrow> (string \<rightharpoonup> 's) \<Rightarrow> string \<Rightarrow> pval
    \<Rightarrow> py_error + (string \<rightharpoonup> 's)" where
  "safe_set assign obj prop v =
     (case obj prop of
        None \<Rightarrow> Inr obj
      | Some s \<Rightarrow>
          (case assign s v of
             Inl e \<Rightarrow> Inr obj
           | Inr s' \<Rightarrow> Inr (obj(prop \<mapsto> s'))))"

text \<open>
  \<^verbatim>\<open>
  def set_input(node, names, value):
      for name in names:
          sock = node.inputs.get(name)
          if sock is not None:
              try:
                  sock.default_value = value
              except Exception:
                  pass
              return
  \<close>
  The loop stops at the first name that the collection has, whether or not the store
  succeeds.
\<close>

fun set_input ::
  "('s \<Rightarrow> pval \<Rightarrow> py_error + 's) \<Rightarrow> (string \<rightharpoonup> 's) \<Rightarrow> string list \<Rightarrow> pval
    \<Rightarrow> py_error + (string \<rightharpoonup> 's)" where
  "set_input assign inputs [] v = Inr inputs"
| "set_input assign inputs (name # names) v =
     (case inputs name of
        None \<Rightarrow> set_input assign inputs names v
      | Some sock \<Rightarrow>
          (case assign sock v of
             Inl e \<Rightarrow> Inr inputs
           | Inr sock' \<Rightarrow> Inr (inputs(name \<mapsto> sock'))))"

text \<open>The name at which the loop of \<open>set_input\<close> stops: the search of the loop
  without the store.\<close>

fun resolve :: "(string \<rightharpoonup> 's) \<Rightarrow> string list \<Rightarrow> string option" where
  "resolve inputs [] = None"
| "resolve inputs (name # names) =
     (case inputs name of
        None \<Rightarrow> resolve inputs names
      | Some sock \<Rightarrow> Some name)"

text \<open>A slot of the host for concrete runs: a read-only flag and a stored value. A
  store into a read-only slot raises \<open>AttributeError\<close>; a store of a value of another
  shape than the stored one raises \<open>TypeError\<close>.\<close>

record slot =
  read_only :: bool
  stored :: pval

fun same_shape :: "pval \<Rightarrow> pval \<Rightarrow> bool" where
  "same_shape (PBool _) (PBool _) = True"
| "same_shape (PNum _) (PNum _) = True"
| "same_shape (PStr _) (PStr _) = True"
| "same_shape (PVec xs) (PVec ys) = (length xs = length ys)"
| "same_shape (PRef _) (PRef _) = True"
| "same_shape _ _ = False"

definition host_assign :: "slot \<Rightarrow> pval \<Rightarrow> py_error + slot" where
  "host_assign s v =
     (if read_only s then Inl AttributeError
      else if \<not> same_shape (stored s) v then Inl TypeError
      else Inr (s\<lparr>stored := v\<rparr>))"

section \<open>Keyframes and interpolation\<close>

record keyframe_point =
  kp_frame :: int
  kp_value :: real
  interpolation :: string

record fcurve =
  data_path :: string
  array_index :: nat
  keyframe_points :: "keyframe_point list"

record action =
  fcurves :: "fcurve list"

text \<open>
  \<^verbatim>\<open>
  def apply_interp(action, desired='LINEAR'):
      allowed = set()
      try:
          for fcu in action.fcurves:
              if fcu.keyframe_points:
                  kfp = fcu.keyframe_points[0]
                  allowed = {e.identifier for e in
                             kfp.bl_rna.properties['interpolation'].enum_items}
                  break
      except Exception:
          pass
      use = desired if desired in allowed else ('BEZIER' if 'BEZIER' in allowed else 'LINEAR')
      for fcu in action.fcurves:
          for kp in fcu.keyframe_points:
              kp.interpolation = use
  \<close>
  The enum lookup on a keyframe is the host's: the parameter \<open>enum_items\<close>, which
  returns the identifiers or raises. The probe reads the first keyframe of the first
  curve that has one; when the lookup raises, \<open>allowed\<close> stays empty.
\<close>

fun probe_allowed ::
  "(keyframe_point \<Rightarrow> py_error + string set) \<Rightarrow> fcurve list \<Rightarrow> string set" where
  "probe_allowed enum_items [] = {}"
| "probe_allowed enum_items (fcu # rest) =
     (case keyframe_points fcu of
        [] \<Rightarrow> probe_allowed enum_items rest
      | kfp # _ \<Rightarrow>
          (case enum_items kfp of
             Inl e \<Rightarrow> {}
           | Inr items \<Rightarrow> items))"

text \<open>The value bound to \<^verbatim>\<open>use\<close>.\<close>

definition negotiate_interpolation :: "string \<Rightarrow> string set \<Rightarrow> string" where
  "negotiate_interpolation desired allowed =
     (if desired \<in> allowed then desired
      else if ''BEZIER'' \<in> allowed then ''BEZIER'' else ''LINEAR'')"

fun set_interpolation :: "string \<Rightarrow> keyframe_point list \<Rightarrow> keyframe_point list" where
  "set_interpolation use [] = []"
| "set_interpolation use (kp # kps) = kp\<lparr>interpolation := use\<rparr> # set_interpolation use kps"

fun set_interpolation_curves :: "string \<Rightarrow> fcurve list \<Rightarrow> fcurve list" where
  "set_interpolation_curves use [] = []"
| "set_interpolation_curves use (fcu # rest) =
     fcu\<lparr>keyframe_points := set_interpolation use (keyframe_points fcu)\<rparr>
       # set_interpolation_curves use rest"

text \<open>Called on \<^verbatim>\<open>None\<close> (an object whose animation data has no action), the probe's
  \<open>AttributeError\<close> is swallowed and the second loop raises it again, outside the
  \<^verbatim>\<open>try\<close>.\<close>

definition apply_interp ::
  "(keyframe_point \<Rightarrow> py_error + string set) \<Rightarrow> action option \<Rightarrow> string
    \<Rightarrow> py_error + action" where
  "apply_interp enum_items act desired =
     (case act of
        None \<Rightarrow> Inl AttributeError
      | Some a \<Rightarrow>
          (let allowed = probe_allowed enum_items (fcurves a);
               use = negotiate_interpolation desired allowed
           in Inr (a\<lparr>fcurves := set_interpolation_curves use (fcurves a)\<rparr>)))"

section \<open>Orbit animation\<close>

text \<open>Quick controls of \<^verbatim>\<open>space_scene.py\<close>, and the frame range it gives the scene
  (\<^verbatim>\<open>scene.frame_start = FRAME_START\<close>, \<^verbatim>\<open>scene.frame_end = FRAME_END\<close>).\<close>

definition FRAME_START :: int where
  "FRAME_START = 1"

definition FRAME_END :: int where
  "FRAME_END = 300"

definition FPS :: int where
  "FPS = 24"

record scene =
  scene_name :: string
  frame_start :: int
  frame_end :: int
  fps :: int

definition configure_scene :: "scene \<Rightarrow> scene" where
  "configure_scene sc =
     sc\<lparr>scene_name := ''SpaceFlythrough'', frame_start := FRAME_START,
        frame_end := FRAME_END, fps := FPS\<rparr>"

definition radians :: "real \<Rightarrow> real" where
  "radians x = x * pi / 180"

record object3d =
  obj_name :: string
  location :: "real \<times> real \<times> real"
  rotation_euler :: "real \<times> real \<times> real"
  parent :: "string option"
  mesh_radius :: "real option"
  animation_data :: "action option"

text \<open>
  Keyframe insertion is the host's. A keyframe on a vector property goes into one
  curve per component (created when missing, as is the action); the points of a curve
  are ordered by frame and a key on a frame that has one replaces it. A new point takes
  the host's preferred interpolation, the parameter \<open>ipo\<close>. A path that is no property
  of the object raises \<open>TypeError\<close>.
\<close>

fun insert_key :: "keyframe_point \<Rightarrow> keyframe_point list \<Rightarrow> keyframe_point list" where
  "insert_key k [] = [k]"
| "insert_key k (p # ps) =
     (if kp_frame k < kp_frame p then k # p # ps
      else if kp_frame k = kp_frame p then k # ps
      else p # insert_key k ps)"

fun curve_insert :: "string \<Rightarrow> nat \<Rightarrow> keyframe_point \<Rightarrow> fcurve list \<Rightarrow> fcurve list" where
  "curve_insert path i k [] = [\<lparr>data_path = path, array_index = i, keyframe_points = [k]\<rparr>]"
| "curve_insert path i k (c # cs) =
     (if data_path c = path \<and> array_index c = i
      then c\<lparr>keyframe_points := insert_key k (keyframe_points c)\<rparr> # cs
      else c # curve_insert path i k cs)"

definition vector_property :: "object3d \<Rightarrow> string \<Rightarrow> (real \<times> real \<times> real) option" where
  "vector_property ob path =
     (if path = ''location'' then Some (location ob)
      else if path = ''rotation_euler'' then Some (rotation_euler ob)
      else None)"

definition keyframe_insert :: "string \<Rightarrow> object3d \<Rightarrow> string \<Rightarrow> int \<Rightarrow> py_error + object3d" where
  "keyframe_insert ipo ob path frame =
     (case vector_property ob path of
        None \<Rightarrow> Inl TypeError
      | Some (x, y, z) \<Rightarrow>
          (let key = (\<lambda>v. \<lparr>kp_frame = frame, kp_value = v, interpolation = ipo\<rparr>);
               cs = (case animation_data ob of None \<Rightarrow> [] | Some a \<Rightarrow> fcurves a);
               cs = curve_insert path 0 (key x) cs;
               cs = curve_insert path 1 (key y) cs;
               cs = curve_insert path 2 (key z) cs
           in Inr (ob\<lparr>animation_data := Some \<lparr>fcurves = cs\<rparr>\<rparr>)))"

text \<open>
  \<^verbatim>\<open>
  def add_moon(parent, radius, distance):
      bpy.ops.object.empty_add(type='PLAIN_AXES', location=parent.location)
      pivot = bpy.context.active_object
      pivot.name = "MoonPivot"
      bpy.ops.mesh.primitive_uv_sphere_add(..., radius=radius,
          location=(parent.location.x + distance, parent.location.y, parent.location.z))
      moon = bpy.context.active_object
      moon.name = "Moon"
      ...
      moon.parent = pivot
      pivot.parent = parent
      pivot.rotation_euler = Euler((0, 0, 0), 'XYZ')
      pivot.keyframe_insert("rotation_euler", frame=FRAME_START)
      pivot.rotation_euler.z = math.radians(360)
      pivot.keyframe_insert("rotation_euler", frame=FRAME_END)
      return moon
  \<close>
  The model returns the moon and the pivot it leaves in the scene. Shading and the
  material are the host's and are left out.
\<close>

definition add_moon ::
  "string \<Rightarrow> object3d \<Rightarrow> real \<Rightarrow> real \<Rightarrow> py_error + (object3d \<times> object3d)" where
  "add_moon ipo par radius distance =
     (let pivot = \<lparr>obj_name = ''MoonPivot'', location = location par,
                    rotation_euler = (0, 0, 0), parent = None, mesh_radius = None,
                    animation_data = None\<rparr>;
          (px, py, pz) = location par;
          moon = \<lparr>obj_name = ''Moon'', location = (px + distance, py, pz),
                   rotation_euler = (0, 0, 0), parent = None, mesh_radius = Some radius,
                   animation_data = None\<rparr>;
          moon = moon\<lparr>parent := Some (obj_name pivot)\<rparr>;
          pivot = pivot\<lparr>parent := Some (obj_name par)\<rparr>;
          pivot = pivot\<lparr>rotation_euler := (0, 0, 0)\<rparr>
      in case keyframe_insert ipo pivot ''rotation_euler'' FRAME_START of
           Inl e \<Rightarrow> Inl e
         | Inr pivot \<Rightarrow>
             (let (rx, ry, rz) = rotation_euler pivot;
                  pivot = pivot\<lparr>rotation_euler := (rx, ry, radians 360)\<rparr>
              in case keyframe_insert ipo pivot ''rotation_euler'' FRAME_END of
                   Inl e \<Rightarrow> Inl e
                 | Inr pivot \<Rightarrow> Inr (moon, pivot)))"

text \<open>The frames and values of a curve's points, in order.\<close>

definition key_table :: "fcurve \<Rightarrow> (int \<times> real) list" where
  "key_table c = map (\<lambda>k. (kp_frame k, kp_value k)) (keyframe_points c)"

section \<open>Node trees\<close>

text \<open>
  A node tree is what the script has asked the host for: the nodes created, with the
  values stored on them, and the links. A node handle is the node's position in the
  tree; a socket is named as the script names it, by key or by position in the node's
  \<^verbatim>\<open>inputs\<close> or \<^verbatim>\<open>outputs\<close>.
\<close>

datatype sockref = ByName string | ByIndex nat

record node =
  bl_idname :: string
  settings :: "string \<rightharpoonup> pval"

record link =
  from_node :: nat
  from_socket :: sockref
  to_node :: nat
  to_socket :: sockref

record node_tree =
  nodes :: "node list"
  links :: "link list"

text \<open>\<^verbatim>\<open>nodes.new(type)\<close> adds a node and returns it.\<close>

definition nodes_new :: "node_tree \<Rightarrow> string \<Rightarrow> nat \<times> node_tree" where
  "nodes_new nt ty =
     (length (nodes nt), nt\<lparr>nodes := nodes nt @ [\<lparr>bl_idname = ty, settings = Map.empty\<rparr>]\<rparr>)"

text \<open>A plain store on a node (an attribute, or the default value of an input), keyed
  by the path the script writes.\<close>

definition store :: "node_tree \<Rightarrow> nat \<Rightarrow> string \<Rightarrow> pval \<Rightarrow> node_tree" where
  "store nt n path v =
     (if n < length (nodes nt)
      then nt\<lparr>nodes := (nodes nt)[n := (nodes nt ! n)\<lparr>settings := (settings (nodes nt ! n))(path \<mapsto> v)\<rparr>]\<rparr>
      else nt)"

text \<open>
  \<^verbatim>\<open>links.new(output_socket, input_socket)\<close> is the host's, called with its default
  \<^verbatim>\<open>verify_limits=True\<close>: an input takes one link, and linking an input that has a
  link removes that link and adds the new one. A socket is told from another by the
  way the script names it. The starfield recipe names every input it links in one way
  and links it once, so in the trees built below no link is ever removed and every
  call adds one link.
\<close>

definition link_target :: "link \<Rightarrow> nat \<times> sockref" where
  "link_target l = (to_node l, to_socket l)"

definition links_new :: "node_tree \<Rightarrow> nat \<times> sockref \<Rightarrow> nat \<times> sockref \<Rightarrow> node_tree" where
  "links_new nt src dst =
     nt\<lparr>links := filter (\<lambda>l. link_target l \<noteq> dst) (links nt)
                   @ [\<lparr>from_node = fst src, from_socket = snd src,
                       to_node = fst dst, to_socket = snd dst\<rparr>]\<rparr>"

text \<open>\<^verbatim>\<open>clean_scene\<close> removes every node of the world's tree (and with them the
  links) before the world is built.\<close>

definition clean_world :: "node_tree \<Rightarrow> node_tree" where
  "clean_world nt = nt\<lparr>nodes := [], links := []\<rparr>"

text \<open>
  \<^verbatim>\<open>build_starfield_world(world, star_scale=STAR_SCALE, star_spread=STAR_SPREAD)\<close>
  of \<^verbatim>\<open>grand_flyby.py\<close>, on the world's node tree.
\<close>

definition STAR_SCALE :: real where
  "STAR_SCALE = 600"

definition STAR_SPREAD :: real where
  "STAR_SPREAD = 0.003"

definition build_starfield_world :: "node_tree \<Rightarrow> real \<Rightarrow> real \<Rightarrow> node_tree" where
  "build_starfield_world nt0 star_scale star_spread =
     (let (out, nt) = nodes_new nt0 ''ShaderNodeOutputWorld'';
          (bg_black, nt) = nodes_new nt ''ShaderNodeBackground'';
          nt = store nt bg_black ''inputs[Color].default_value'' (PVec [0, 0, 0, 1]);
          nt = store nt bg_black ''inputs[Strength].default_value'' (PNum 1.0);
          (mix, nt) = nodes_new nt ''ShaderNodeMixShader'';
          (emission, nt) = nodes_new nt ''ShaderNodeEmission'';
          nt = store nt emission ''inputs[Color].default_value'' (PVec [1, 1, 1, 1]);
          nt = store nt emission ''inputs[Strength].default_value'' (PNum 4.0);
          (vor, nt) = nodes_new nt ''ShaderNodeTexVoronoi'';
          nt = store nt vor ''feature'' (PStr ''F1'');
          nt = store nt vor ''distance'' (PStr ''EUCLIDEAN'');
          nt = store nt vor ''inputs[Scale].default_value'' (PNum star_scale);
          (cramp, nt) = nodes_new nt ''ShaderNodeValToRGB'';
          nt = store nt cramp ''color_ramp.elements[0].position'' (PNum star_spread);
          nt = store nt cramp ''color_ramp.elements[0].color'' (PVec [0, 0, 0, 1]);
          nt = store nt cramp ''color_ramp.elements[1].position'' (PNum (star_spread + 0.015));
          nt = store nt cramp ''color_ramp.elements[1].color'' (PVec [1, 1, 1, 1]);
          (texcoord, nt) = nodes_new nt ''ShaderNodeTexCoord'';
          (power, nt) = nodes_new nt ''ShaderNodeMath'';
          nt = store nt power ''operation'' (PStr ''POWER'');
          nt = store nt power ''inputs[1].default_value'' (PNum 6.5);
          nt = links_new nt (texcoord, ByName ''Generated'') (vor, ByName ''Vector'');
          nt = links_new nt (vor, ByName ''Distance'') (cramp, ByName ''Fac'');
          nt = links_new nt (cramp, ByName ''Color'') (power, ByIndex 0);
          nt = links_new nt (power, ByName ''Value'') (mix, ByName ''Fac'');
          nt = links_new nt (bg_black, ByName ''Background'') (mix, ByIndex 1);
          nt = links_new nt (emission, ByName ''Emission'') (mix, ByIndex 2);
          nt = links_new nt (mix, ByName ''Shader'') (out, ByName ''Surface'')
      in nt)"

text \<open>The same function of \<^verbatim>\<open>space_scene.py\<close>: other constants (emission strength,
  ramp width, exponent), the same nodes and links.\<close>

definition build_starfield_world_space_scene :: "node_tree \<Rightarrow> real \<Rightarrow> real \<Rightarrow> node_tree" where
  "build_starfield_world_space_scene nt0 star_scale star_spread =
     (let (out, nt) = nodes_new nt0 ''ShaderNodeOutputWorld'';
          (bg_black, nt) = nodes_new nt ''ShaderNodeBackground'';
          nt = store nt bg_black ''inputs[Color].default_value'' (PVec [0, 0, 0, 1]);
          nt = store nt bg_black ''inputs[Strength].default_value'' (PNum 1.0);
          (mix, nt) = nodes_new nt ''ShaderNodeMixShader'';
          (emission, nt) = nodes_new nt ''ShaderNodeEmission'';
          nt = store nt emission ''inputs[Color].default_value'' (PVec [1, 1, 1, 1]);
          nt = store nt emission ''inputs[Strength].default_value'' (PNum 3.0);
          (vor, nt) = nodes_new nt ''ShaderNodeTexVoronoi'';
          nt = store nt vor ''feature'' (PStr ''F1'');
          nt = store nt vor ''distance'' (PStr ''EUCLIDEAN'');
          nt = store nt vor ''inputs[Scale].default_value'' (PNum star_scale);
          (cramp, nt) = nodes_new nt ''ShaderNodeValToRGB'';
          nt = store nt cramp ''color_ramp.elements[0].position'' (PNum star_spread);
          nt = store nt cramp ''color_ramp.elements[0].color'' (PVec [0, 0, 0, 1]);
          nt = store nt cramp ''color_ramp.elements[1].position'' (PNum (star_spread + 0.02));
          nt = store nt cramp ''color_ramp.elements[1].color'' (PVec [1, 1, 1, 1]);
          (texcoord, nt) = nodes_new nt ''ShaderNodeTexCoord'';
          (power, nt) = nodes_new nt ''ShaderNodeMath'';
          nt = store nt power ''operation'' (PStr ''POWER'');
          nt = store nt power ''inputs[1].default_value'' (PNum 6.0);
          nt = links_new nt (texcoord, ByName ''Generated'') (vor, ByName ''Vector'');
          nt = links_new nt (vor, ByName ''Distance'') (cramp, ByName ''Fac'');
          nt = links_new nt (cramp, ByName ''Color'') (power, ByIndex 0);
          nt = links_new nt (power, ByName ''Value'') (mix, ByName ''Fac'');
          nt = links_new nt (bg_black, ByName ''Background'') (mix, ByIndex 1);
          nt = links_new nt (emission, ByName ''Emission'') (mix, ByIndex 2);
          nt = links_new nt (mix, ByName ''Shader'') (out, ByName ''Surface'')
      in nt)"

text \<open>The links that end in a node. The world-output node of a tree built on a
  cleaned world is the first node created, node 0.\<close>

definition incoming :: "node_tree \<Rightarrow> nat \<Rightarrow> link list" where
  "incoming nt n = filter (\<lambda>l. to_node l = n) (links nt)"

section \<open>Facts about the compatibility helpers\<close>

lemma set_input_resolve:
  "set_input assign inputs names v =
     (case resolve inputs names of None \<Rightarrow> Inr inputs | Some n \<Rightarrow> safe_set assign inputs n v)"
  by (induction names) (auto simp: safe_set_def split: option.splits sum.splits)

lemma resolve_None_iff: "resolve inputs names = None \<longleftrightarrow> (\<forall>n \<in> set names. n \<notin> dom inputs)"
  by (induction names) (auto split: option.splits)

lemma resolve_Some_first:
  "resolve inputs names = Some n \<Longrightarrow>
     \<exists>pre post. names = pre @ n # post \<and> n \<in> dom inputs \<and> (\<forall>k \<in> set pre. k \<notin> dom inputs)"
proof (induction names)
  case Nil
  then show ?case by simp
next
  case (Cons a names)
  show ?case
  proof (cases "inputs a")
    case None
    with Cons.prems have "resolve inputs names = Some n" by simp
    from Cons.IH [OF this] obtain pre post where
      "names = pre @ n # post" "n \<in> dom inputs" "\<forall>k \<in> set pre. k \<notin> dom inputs" by blast
    with None have "a # names = (a # pre) @ n # post \<and> n \<in> dom inputs \<and> (\<forall>k \<in> set (a # pre). k \<notin> dom inputs)"
      by auto
    then show ?thesis by blast
  next
    case (Some s)
    with Cons.prems have "a = n" by simp
    with Some have "a # names = [] @ n # names \<and> n \<in> dom inputs \<and> (\<forall>k \<in> set ([]::string list). k \<notin> dom inputs)"
      by auto
    then show ?thesis by blast
  qed
qed

lemma safe_set_returns: "\<exists>obj'. safe_set assign obj prop v = Inr obj'"
  by (simp add: safe_set_def split: option.splits sum.splits)

lemma safe_set_frame: "safe_set assign obj prop v = Inr obj' \<Longrightarrow> k \<noteq> prop \<Longrightarrow> obj' k = obj k"
  by (auto simp: safe_set_def split: option.splits sum.splits)

lemma safe_set_absent: "obj prop = None \<Longrightarrow> safe_set assign obj prop v = Inr obj"
  by (simp add: safe_set_def)

section \<open>Facts about interpolation\<close>

lemma set_interpolation_all: "kp \<in> set (set_interpolation use kps) \<Longrightarrow> interpolation kp = use"
  by (induction kps) auto

lemma set_interpolation_curves_all:
  "fcu \<in> set (set_interpolation_curves use cs) \<Longrightarrow> kp \<in> set (keyframe_points fcu) \<Longrightarrow> interpolation kp = use"
  by (induction cs) (auto dest: set_interpolation_all)

lemma set_interpolation_length: "length (set_interpolation use kps) = length kps"
  by (induction kps) auto

lemma set_interpolation_curves_length: "length (set_interpolation_curves use cs) = length cs"
  by (induction cs) auto

lemma set_interpolation_curves_nth:
  "i < length cs \<Longrightarrow> length (keyframe_points (set_interpolation_curves use cs ! i)) = length (keyframe_points (cs ! i))"
  by (induction cs arbitrary: i) (auto simp: set_interpolation_length nth_Cons split: nat.splits)

section \<open>Facts about node trees\<close>

lemma nodes_new_fst: "fst (nodes_new nt ty) = length (nodes nt)"
  by (simp add: nodes_new_def)

lemma nodes_new_ids: "map bl_idname (nodes (snd (nodes_new nt ty))) = map bl_idname (nodes nt) @ [ty]"
  by (simp add: nodes_new_def)

lemma nodes_new_length: "length (nodes (snd (nodes_new nt ty))) = Suc (length (nodes nt))"
  by (simp add: nodes_new_def)

lemma nodes_new_links: "links (snd (nodes_new nt ty)) = links nt"
  by (simp add: nodes_new_def)

lemma store_ids: "map bl_idname (nodes (store nt n p v)) = map bl_idname (nodes nt)"
  by (simp add: store_def map_update list_update_same_conv)

lemma store_length: "length (nodes (store nt n p v)) = length (nodes nt)"
  by (simp add: store_def)

lemma store_links: "links (store nt n p v) = links nt"
  by (simp add: store_def)

lemma links_new_nodes: "nodes (links_new nt src dst) = nodes nt"
  by (simp add: links_new_def)

lemma links_new_links:
  "links (links_new nt src dst) =
     filter (\<lambda>l. link_target l \<noteq> dst) (links nt)
       @ [\<lparr>from_node = fst src, from_socket = snd src, to_node = fst dst, to_socket = snd dst\<rparr>]"
  by (simp add: links_new_def)

lemma clean_world_nodes: "nodes (clean_world nt) = []"
  by (simp add: clean_world_def)

lemma clean_world_links: "links (clean_world nt) = []"
  by (simp add: clean_world_def)

lemmas tree_simps = nodes_new_fst nodes_new_ids nodes_new_length nodes_new_links store_ids
  store_length store_links links_new_nodes links_new_links clean_world_nodes clean_world_links
  link_target_def

lemma starfield_ids:
  "map bl_idname (nodes (build_starfield_world (clean_world nt0) sc sp)) =
     [''ShaderNodeOutputWorld'', ''ShaderNodeBackground'', ''ShaderNodeMixShader'',
      ''ShaderNodeEmission'', ''ShaderNodeTexVoronoi'', ''ShaderNodeValToRGB'',
      ''ShaderNodeTexCoord'', ''ShaderNodeMath'']"
  by (simp add: build_starfield_world_def Let_def split_beta tree_simps)

lemma starfield_links:
  "links (build_starfield_world (clean_world nt0) sc sp) =
     [\<lparr>from_node = 6, from_socket = ByName ''Generated'', to_node = 4, to_socket = ByName ''Vector''\<rparr>,
      \<lparr>from_node = 4, from_socket = ByName ''Distance'', to_node = 5, to_socket = ByName ''Fac''\<rparr>,
      \<lparr>from_node = 5, from_socket = ByName ''Color'', to_node = 7, to_socket = ByIndex 0\<rparr>,
      \<lparr>from_node = 7, from_socket = ByName ''Value'', to_node = 2, to_socket = ByName ''Fac''\<rparr>,
      \<lparr>from_node = 1, from_socket = ByName ''Background'', to_node = 2, to_socket = ByIndex 1\<rparr>,
      \<lparr>from_node = 3, from_socket = ByName ''Emission'', to_node = 2, to_socket = ByIndex 2\<rparr>,
      \<lparr>from_node = 2, from_socket = ByName ''Shader'', to_node = 0, to_socket = ByName ''Surface''\<rparr>]"
  by (simp add: build_starfield_world_def Let_def split_beta tree_simps)

lemma starfield_space_scene_ids:
  "map bl_idname (nodes (build_starfield_world_space_scene (clean_world nt0) sc sp)) =
     [''ShaderNodeOutputWorld'', ''ShaderNodeBackground'', ''ShaderNodeMixShader'',
      ''ShaderNodeEmission'', ''ShaderNodeTexVoronoi'', ''ShaderNodeValToRGB'',
      ''ShaderNodeTexCoord'', ''ShaderNodeMath'']"
  by (simp add: build_starfield_world_space_scene_def Let_def split_beta tree_simps)

lemma starfield_space_scene_links:
  "links (build_starfield_world_space_scene (clean_world nt0) sc sp) =
     [\<lparr>from_node = 6, from_socket = ByName ''Generated'', to_node = 4, to_socket = ByName ''Vector''\<rparr>,
      \<lparr>from_node = 4, from_socket = ByName ''Distance'', to_node = 5, to_socket = ByName ''Fac''\<rparr>,
      \<lparr>from_node = 5, from_socket = ByName ''Color'', to_node = 7, to_socket = ByIndex 0\<rparr>,
      \<lparr>from_node = 7, from_socket = ByName ''Value'', to_node = 2, to_socket = ByName ''Fac''\<rparr>,
      \<lparr>from_node = 1, from_socket = ByName ''Background'', to_node = 2, to_socket = ByIndex 1\<rparr>,
      \<lparr>from_node = 3, from_socket = ByName ''Emission'', to_node = 2, to_socket = ByIndex 2\<rparr>,
      \<lparr>from_node = 2, from_socket = ByName ''Shader'', to_node = 0, to_socket = ByName ''Surface''\<rparr>]"
  by (simp add: build_starfield_world_space_scene_def Let_def split_beta tree_simps)

section \<open>Properties of interpolation negotiation\<close>

text \<open>
  C3. The mode chosen follows the chain desired, then BEZIER, then LINEAR, and is
  defined for every desired mode and every supported set: it is the desired mode when
  that is supported, otherwise BEZIER when BEZIER is supported, otherwise LINEAR. LINEAR
  against LINEAR and BEZIER gives LINEAR; LINEAR against BEZIER alone gives BEZIER.
\<close>

theorem negotiate_interpolation_chain:
  "negotiate_interpolation desired allowed =
     (if desired \<in> allowed then desired
      else if ''BEZIER'' \<in> allowed then ''BEZIER'' else ''LINEAR'')
   \<and> negotiate_interpolation ''LINEAR'' {''LINEAR'', ''BEZIER''} = ''LINEAR''
   \<and> negotiate_interpolation ''LINEAR'' {''BEZIER''} = ''BEZIER''"
  by (simp add: negotiate_interpolation_def)

section \<open>The starfield world graph\<close>

text \<open>
  C1, as stated, fails: building the starfield world with scale 600 and spread 0.003 on
  a cleaned world does not give 7 nodes.
\<close>

theorem starfield_seven_nodes_counterexample:
  "\<not> (length (nodes (build_starfield_world (clean_world \<lparr>nodes = [], links = []\<rparr>) 600 0.003)) = 7
      \<and> length (links (build_starfield_world (clean_world \<lparr>nodes = [], links = []\<rparr>) 600 0.003)) = 7)"
proof -
  have "length (map bl_idname (nodes (build_starfield_world (clean_world \<lparr>nodes = [], links = []\<rparr>) 600 0.003))) = 8"
    by (simp only: starfield_ids) simp
  then show ?thesis by simp
qed

text \<open>
  C1, amended. Building the starfield world graph on a cleaned world (for every scale and
  spread, so for scale 600 and spread 0.003) yields exactly 8 nodes (world output,
  background, mix shader, emission, Voronoi texture, colour ramp, texture coordinate,
  math) and exactly 7 links, and the world-output node, the first node created, has
  exactly one incoming link, from the mix shader. Both scripts build the same topology.
\<close>

theorem starfield_topology:
  "length (nodes (build_starfield_world (clean_world nt0) sc sp)) = 8
   \<and> length (links (build_starfield_world (clean_world nt0) sc sp)) = 7
   \<and> bl_idname (nodes (build_starfield_world (clean_world nt0) sc sp) ! 0) = ''ShaderNodeOutputWorld''
   \<and> incoming (build_starfield_world (clean_world nt0) sc sp) 0 =
       [\<lparr>from_node = 2, from_socket = ByName ''Shader'', to_node = 0, to_socket = ByName ''Surface''\<rparr>]
   \<and> length (nodes (build_starfield_world_space_scene (clean_world nt0) sc sp)) = 8
   \<and> length (links (build_starfield_world_space_scene (clean_world nt0) sc sp)) = 7
   \<and> bl_idname (nodes (build_starfield_world_space_scene (clean_world nt0) sc sp) ! 0) = ''ShaderNodeOutputWorld''
   \<and> incoming (build_starfield_world_space_scene (clean_world nt0) sc sp) 0 =
       [\<lparr>from_node = 2, from_socket = ByName ''Shader'', to_node = 0, to_socket = ByName ''Surface''\<rparr>]"
proof -
  let ?g = "build_starfield_world (clean_world nt0) sc sp"
  let ?h = "build_starfield_world_space_scene (clean_world nt0) sc sp"
  have g8: "length (map bl_idname (nodes ?g)) = 8" by (simp only: starfield_ids) simp
  have h8: "length (map bl_idname (nodes ?h)) = 8" by (simp only: starfield_space_scene_ids) simp
  have g0: "map bl_idname (nodes ?g) ! 0 = ''ShaderNodeOutputWorld''"
    by (simp only: starfield_ids) simp
  have h0: "map bl_idname (nodes ?h) ! 0 = ''ShaderNodeOutputWorld''"
    by (simp only: starfield_space_scene_ids) simp
  have g0': "bl_idname (nodes ?g ! 0) = ''ShaderNodeOutputWorld''"
    using g0 g8 by simp
  have h0': "bl_idname (nodes ?h ! 0) = ''ShaderNodeOutputWorld''"
    using h0 h8 by simp
  have gl: "length (links ?g) = 7" by (simp add: starfield_links)
  have hl: "length (links ?h) = 7" by (simp add: starfield_space_scene_links)
  have gi: "incoming ?g 0 =
      [\<lparr>from_node = 2, from_socket = ByName ''Shader'', to_node = 0, to_socket = ByName ''Surface''\<rparr>]"
    by (simp add: incoming_def starfield_links)
  have hi: "incoming ?h 0 =
      [\<lparr>from_node = 2, from_socket = ByName ''Shader'', to_node = 0, to_socket = ByName ''Surface''\<rparr>]"
    by (simp add: incoming_def starfield_space_scene_links)
  from g8 h8 g0' h0' gl hl gi hi show ?thesis by simp
qed

theorem starfield_topology_witness:
  "length (nodes (build_starfield_world (clean_world \<lparr>nodes = [], links = []\<rparr>) STAR_SCALE STAR_SPREAD)) = 8
   \<and> length (links (build_starfield_world (clean_world \<lparr>nodes = [], links = []\<rparr>) STAR_SCALE STAR_SPREAD)) = 7
   \<and> length (incoming (build_starfield_world (clean_world \<lparr>nodes = [], links = []\<rparr>) STAR_SCALE STAR_SPREAD) 0) = 1"
  using starfield_topology [of "\<lparr>nodes = [], links = []\<rparr>" STAR_SCALE STAR_SPREAD] by simp

section \<open>Interpolation when nothing is known about the host\<close>

text \<open>
  C4, as stated, fails: with an empty supported set the desired mode SINE (the mode the
  script asks for on the focus target) is not returned; LINEAR is.
\<close>

theorem negotiate_empty_counterexample:
  "negotiate_interpolation ''SINE'' {} = ''LINEAR''
   \<and> negotiate_interpolation ''SINE'' {} \<noteq> ''SINE''"
  by (simp add: negotiate_interpolation_def)

text \<open>
  C4, amended. For every desired interpolation mode, when the supported set could not
  be determined (is empty), negotiation returns LINEAR; that is the desired mode only
  when the desired mode is LINEAR. The supported set is empty when no curve of the
  action has a keyframe and when the host's enum lookup raises.
\<close>

theorem negotiate_empty_linear:
  "negotiate_interpolation desired {} = ''LINEAR''
   \<and> (negotiate_interpolation desired {} = desired \<longleftrightarrow> desired = ''LINEAR'')
   \<and> probe_allowed enum_items [] = {}
   \<and> (enum_items kfp = Inl e \<longrightarrow>
        probe_allowed enum_items
          (\<lparr>data_path = path, array_index = i, keyframe_points = kfp # kps\<rparr> # rest) = {})"
  by (auto simp: negotiate_interpolation_def)

theorem negotiate_empty_linear_witness:
  "negotiate_interpolation ''SINE'' {} = ''LINEAR''
   \<and> probe_allowed (\<lambda>k. Inl AttributeError)
        [\<lparr>data_path = ''location'', array_index = 0,
          keyframe_points = [\<lparr>kp_frame = 1, kp_value = 0, interpolation = ''BEZIER''\<rparr>]\<rparr>] = {}"
  using negotiate_empty_linear [of "''SINE''" "\<lambda>k. Inl AttributeError"
      "\<lparr>kp_frame = 1, kp_value = 0, interpolation = ''BEZIER''\<rparr>" AttributeError
      "''location''" 0 "[]" "[]"]
  by simp

section \<open>The compatibility setters\<close>

text \<open>
  C5. The compatibility setters never propagate a failure: for every target, every
  candidate list, every value and every behaviour of the host's store, \<open>set_input\<close>
  and \<open>safe_set\<close> return normally. When no candidate is present the target is returned
  as it is; when the store into the resolved name raises, the error is swallowed and the
  target is returned as it is. Resolving Specular, Specular IOR Level against a target
  that has Roughness only finds nothing.
\<close>

theorem setters_never_raise:
  "(\<exists>inputs'. set_input assign inputs names v = Inr inputs')
   \<and> (\<exists>obj'. safe_set assign obj prop v = Inr obj')
   \<and> (resolve inputs names = None \<longrightarrow> set_input assign inputs names v = Inr inputs)
   \<and> (\<forall>n s e. resolve inputs names = Some n \<and> inputs n = Some s \<and> assign s v = Inl e
          \<longrightarrow> set_input assign inputs names v = Inr inputs)
   \<and> (\<forall>s e. obj prop = Some s \<and> assign s v = Inl e \<longrightarrow> safe_set assign obj prop v = Inr obj)
   \<and> resolve [''Roughness'' \<mapsto> s0] [''Specular'', ''Specular IOR Level''] = None
   \<and> set_input assign [''Roughness'' \<mapsto> s0] [''Specular'', ''Specular IOR Level''] v
        = Inr [''Roughness'' \<mapsto> s0]"
proof -
  have a: "\<exists>inputs'. set_input assign inputs names v = Inr inputs'"
    using safe_set_returns [of assign inputs _ v]
    by (simp add: set_input_resolve split: option.splits)
  have b: "\<exists>obj'. safe_set assign obj prop v = Inr obj'"
    by (rule safe_set_returns)
  have c: "resolve inputs names = None \<longrightarrow> set_input assign inputs names v = Inr inputs"
    by (simp add: set_input_resolve)
  have d: "\<forall>n s e. resolve inputs names = Some n \<and> inputs n = Some s \<and> assign s v = Inl e
          \<longrightarrow> set_input assign inputs names v = Inr inputs"
    by (simp add: set_input_resolve safe_set_def)
  have e: "\<forall>s e. obj prop = Some s \<and> assign s v = Inl e \<longrightarrow> safe_set assign obj prop v = Inr obj"
    by (simp add: safe_set_def)
  have f: "resolve [''Roughness'' \<mapsto> s0] [''Specular'', ''Specular IOR Level''] = None"
    by simp
  have g: "set_input assign [''Roughness'' \<mapsto> s0] [''Specular'', ''Specular IOR Level''] v
        = Inr [''Roughness'' \<mapsto> s0]"
    by simp
  from a b c d e f g show ?thesis by blast
qed

theorem setters_never_raise_witness:
  "set_input host_assign
     [''Specular IOR Level'' \<mapsto> \<lparr>read_only = True, stored = PNum 0.5\<rparr>]
     [''Specular'', ''Specular IOR Level''] (PNum 0.35)
   = Inr [''Specular IOR Level'' \<mapsto> \<lparr>read_only = True, stored = PNum 0.5\<rparr>]
   \<and> safe_set host_assign [''use_bloom'' \<mapsto> \<lparr>read_only = False, stored = PBool False\<rparr>]
        ''use_bloom'' (PNum 1)
      = Inr [''use_bloom'' \<mapsto> \<lparr>read_only = False, stored = PBool False\<rparr>]"
proof -
  let ?m = "[''Specular IOR Level'' \<mapsto> \<lparr>read_only = True, stored = PNum 0.5\<rparr>]"
  let ?o = "[''use_bloom'' \<mapsto> \<lparr>read_only = False, stored = PBool False\<rparr>]"
  have r: "resolve ?m [''Specular'', ''Specular IOR Level''] = Some ''Specular IOR Level''"
    by simp
  have l: "?m ''Specular IOR Level'' = Some \<lparr>read_only = True, stored = PNum 0.5\<rparr>"
    by simp
  have x: "host_assign \<lparr>read_only = True, stored = PNum 0.5\<rparr> (PNum 0.35) = Inl AttributeError"
    by (simp add: host_assign_def)
  have o: "?o ''use_bloom'' = Some \<lparr>read_only = False, stored = PBool False\<rparr>"
    by simp
  have y: "host_assign \<lparr>read_only = False, stored = PBool False\<rparr> (PNum 1) = Inl TypeError"
    by (simp add: host_assign_def)
  from setters_never_raise [of host_assign ?m "[''Specular'', ''Specular IOR Level'']" "PNum 0.35"
      ?o "''use_bloom''"] r l x
  have 1: "set_input host_assign ?m [''Specular'', ''Specular IOR Level''] (PNum 0.35) = Inr ?m"
    by blast
  from setters_never_raise [of host_assign ?o "[]" "PNum 1" ?o "''use_bloom''"] o y
  have 2: "safe_set host_assign ?o ''use_bloom'' (PNum 1) = Inr ?o"
    by blast
  from 1 2 show ?thesis by simp
qed

text \<open>
  C6. For every target and every ordered candidate list, resolution returns the first
  candidate, in list order, that the target has, and nothing when the target has none
  of them; \<open>set_input\<close> stores into exactly that name, and \<open>safe_set\<close> is the case
  of one candidate.
\<close>

theorem resolve_first_present:
  "(resolve inputs names = None \<longleftrightarrow> (\<forall>n \<in> set names. n \<notin> dom inputs))
   \<and> (\<forall>n. resolve inputs names = Some n \<longrightarrow>
         (\<exists>pre post. names = pre @ n # post \<and> n \<in> dom inputs \<and> (\<forall>k \<in> set pre. k \<notin> dom inputs)))
   \<and> set_input assign inputs names v =
       (case resolve inputs names of None \<Rightarrow> Inr inputs | Some n \<Rightarrow> safe_set assign inputs n v)
   \<and> safe_set assign inputs prop v = set_input assign inputs [prop] v"
proof -
  have a: "resolve inputs names = None \<longleftrightarrow> (\<forall>n \<in> set names. n \<notin> dom inputs)"
    by (rule resolve_None_iff)
  have b: "\<forall>n. resolve inputs names = Some n \<longrightarrow>
         (\<exists>pre post. names = pre @ n # post \<and> n \<in> dom inputs \<and> (\<forall>k \<in> set pre. k \<notin> dom inputs))"
    using resolve_Some_first [of inputs names] by blast
  have c: "safe_set assign inputs prop v = set_input assign inputs [prop] v"
    by (simp add: safe_set_def split: option.splits)
  from a b c set_input_resolve [of assign inputs names v] show ?thesis by simp
qed

theorem resolve_first_present_witness:
  "resolve [''Roughness'' \<mapsto> \<lparr>read_only = False, stored = PNum 0.5\<rparr>]
     [''Specular'', ''Specular IOR Level''] = None
   \<and> set_input host_assign
        [''Specular IOR Level'' \<mapsto> \<lparr>read_only = False, stored = PNum 0.5\<rparr>,
         ''Roughness'' \<mapsto> \<lparr>read_only = False, stored = PNum 0.5\<rparr>]
        [''Specular'', ''Specular IOR Level'', ''Roughness''] (PNum 0.35)
      = safe_set host_assign
          [''Specular IOR Level'' \<mapsto> \<lparr>read_only = False, stored = PNum 0.5\<rparr>,
           ''Roughness'' \<mapsto> \<lparr>read_only = False, stored = PNum 0.5\<rparr>]
          ''Specular IOR Level'' (PNum 0.35)"
proof -
  let ?r = "[''Roughness'' \<mapsto> \<lparr>read_only = False, stored = PNum 0.5\<rparr>]"
  let ?m = "[''Specular IOR Level'' \<mapsto> \<lparr>read_only = False, stored = PNum 0.5\<rparr>,
            ''Roughness'' \<mapsto> \<lparr>read_only = False, stored = PNum 0.5\<rparr>]"
  have "\<forall>n \<in> set [''Specular'', ''Specular IOR Level'']. n \<notin> dom ?r" by simp
  with resolve_first_present [of ?r "[''Specular'', ''Specular IOR Level'']" host_assign "PNum 0.35" "''Roughness''"]
  have 1: "resolve ?r [''Specular'', ''Specular IOR Level''] = None" by blast
  have r: "resolve ?m [''Specular'', ''Specular IOR Level'', ''Roughness''] = Some ''Specular IOR Level''"
    by simp
  from resolve_first_present [of ?m "[''Specular'', ''Specular IOR Level'', ''Roughness'']" host_assign "PNum 0.35" "''Roughness''"]
  have "set_input host_assign ?m [''Specular'', ''Specular IOR Level'', ''Roughness''] (PNum 0.35) =
       (case resolve ?m [''Specular'', ''Specular IOR Level'', ''Roughness''] of
          None \<Rightarrow> Inr ?m | Some n \<Rightarrow> safe_set host_assign ?m n (PNum 0.35))"
    by blast
  with r have 2: "set_input host_assign ?m [''Specular'', ''Specular IOR Level'', ''Roughness''] (PNum 0.35) =
       safe_set host_assign ?m ''Specular IOR Level'' (PNum 0.35)"
    by simp
  from 1 2 show ?thesis by blast
qed

text \<open>
  C9. For every target and candidate list: when no candidate is an attribute of the
  target, the setter returns the target unmodified; when a candidate is present, every
  attribute other than the resolved one is unchanged. The same holds for \<open>safe_set\<close>
  and its one property. Both return normally.
\<close>

theorem setters_frame:
  "((\<forall>n \<in> set names. inputs n = None) \<longrightarrow> set_input assign inputs names v = Inr inputs)
   \<and> (obj prop = None \<longrightarrow> safe_set assign obj prop v = Inr obj)
   \<and> (\<exists>inputs'. set_input assign inputs names v = Inr inputs'
         \<and> (\<forall>n k. resolve inputs names = Some n \<and> k \<noteq> n \<longrightarrow> inputs' k = inputs k))
   \<and> (\<exists>obj'. safe_set assign obj prop v = Inr obj' \<and> (\<forall>k. k \<noteq> prop \<longrightarrow> obj' k = obj k))"
proof -
  have a: "(\<forall>n \<in> set names. inputs n = None) \<longrightarrow> set_input assign inputs names v = Inr inputs"
  proof
    assume "\<forall>n \<in> set names. inputs n = None"
    then have "resolve inputs names = None"
      by (simp add: resolve_None_iff domIff)
    then show "set_input assign inputs names v = Inr inputs"
      by (simp add: set_input_resolve)
  qed
  have b: "obj prop = None \<longrightarrow> safe_set assign obj prop v = Inr obj"
    by (simp add: safe_set_absent)
  have d: "\<exists>obj'. safe_set assign obj prop v = Inr obj' \<and> (\<forall>k. k \<noteq> prop \<longrightarrow> obj' k = obj k)"
    using safe_set_returns [of assign obj "prop" v] safe_set_frame [of assign obj "prop" v] by blast
  have c: "\<exists>inputs'. set_input assign inputs names v = Inr inputs'
         \<and> (\<forall>n k. resolve inputs names = Some n \<and> k \<noteq> n \<longrightarrow> inputs' k = inputs k)"
  proof (cases "resolve inputs names")
    case None
    then show ?thesis by (simp add: set_input_resolve)
  next
    case (Some n)
    obtain inputs' where i: "safe_set assign inputs n v = Inr inputs'"
      using safe_set_returns [of assign inputs n v] by blast
    with Some have "set_input assign inputs names v = Inr inputs'"
      by (simp add: set_input_resolve)
    moreover have "\<forall>k. k \<noteq> n \<longrightarrow> inputs' k = inputs k"
      using safe_set_frame [OF i] by blast
    ultimately show ?thesis using Some by simp
  qed
  from a b c d show ?thesis by blast
qed

theorem setters_frame_witness:
  "(\<exists>inputs'. set_input host_assign
        [''Specular IOR Level'' \<mapsto> \<lparr>read_only = False, stored = PNum 0.5\<rparr>,
         ''Roughness'' \<mapsto> \<lparr>read_only = False, stored = PNum 0.5\<rparr>]
        [''Specular'', ''Specular IOR Level''] (PNum 0.35) = Inr inputs'
      \<and> inputs' ''Roughness'' = Some \<lparr>read_only = False, stored = PNum 0.5\<rparr>
      \<and> inputs' ''Specular IOR Level'' = Some \<lparr>read_only = False, stored = PNum 0.35\<rparr>)
   \<and> set_input host_assign [''Roughness'' \<mapsto> \<lparr>read_only = False, stored = PNum 0.5\<rparr>]
        [''Specular'', ''Specular IOR Level''] (PNum 0.35)
      = Inr [''Roughness'' \<mapsto> \<lparr>read_only = False, stored = PNum 0.5\<rparr>]"
proof -
  let ?m = "[''Specular IOR Level'' \<mapsto> \<lparr>read_only = False, stored = PNum 0.5\<rparr>,
            ''Roughness'' \<mapsto> \<lparr>read_only = False, stored = PNum 0.5\<rparr>]"
  let ?r = "[''Roughness'' \<mapsto> \<lparr>read_only = False, stored = PNum 0.5\<rparr>]"
  let ?names = "[''Specular'', ''Specular IOR Level'']"
  have r: "resolve ?m ?names = Some ''Specular IOR Level''" by simp
  from setters_frame [of ?names ?m host_assign "PNum 0.35" ?m "''Roughness''"]
  obtain inputs' where i: "set_input host_assign ?m ?names (PNum 0.35) = Inr inputs'"
    and f: "\<forall>n k. resolve ?m ?names = Some n \<and> k \<noteq> n \<longrightarrow> inputs' k = ?m k"
    by blast
  from f r have "inputs' ''Roughness'' = ?m ''Roughness''" by auto
  then have 1: "inputs' ''Roughness'' = Some \<lparr>read_only = False, stored = PNum 0.5\<rparr>" by simp
  from i have 2: "inputs' ''Specular IOR Level'' = Some \<lparr>read_only = False, stored = PNum 0.35\<rparr>"
    by (auto simp: host_assign_def)
  have "\<forall>n \<in> set ?names. ?r n = None" by simp
  with setters_frame [of ?names ?r host_assign "PNum 0.35" ?r "''Roughness''"]
  have 3: "set_input host_assign ?r ?names (PNum 0.35) = Inr ?r" by blast
  from i 1 2 3 show ?thesis by blast
qed

section \<open>The moon's orbit\<close>

text \<open>
  C8. The pivot-rotation animation that \<open>add_moon\<close> builds is a two-keyframe curve on
  the rotation property of the pivot: every component curve of \<open>rotation_euler\<close> has
  exactly two keyframes, one on the scene's start frame with value 0 and one on the
  scene's end frame; on the end frame the z component, the axis of the orbit, has the
  value of a full turn, \<open>radians 360 = 2 pi\<close>, and the other two components stay 0.
\<close>

theorem add_moon_orbit:
  "\<exists>moon pivot a.
     add_moon ipo par radius distance = Inr (moon, pivot)
     \<and> animation_data pivot = Some a
     \<and> map (\<lambda>c. (data_path c, array_index c, key_table c)) (fcurves a) =
         [(''rotation_euler'', 0, [(frame_start (configure_scene sc), 0), (frame_end (configure_scene sc), 0)]),
          (''rotation_euler'', 1, [(frame_start (configure_scene sc), 0), (frame_end (configure_scene sc), 0)]),
          (''rotation_euler'', 2, [(frame_start (configure_scene sc), 0), (frame_end (configure_scene sc), 2 * pi)])]
     \<and> radians 360 = 2 * pi"
  by (simp add: add_moon_def keyframe_insert_def vector_property_def Let_def split_beta
      key_table_def configure_scene_def FRAME_START_def FRAME_END_def radians_def)

theorem add_moon_orbit_witness:
  "\<exists>moon pivot a.
     add_moon ''BEZIER''
       \<lparr>obj_name = ''Planet'', location = (0, 0, 0), rotation_euler = (0, 0, 0), parent = None,
        mesh_radius = Some 2, animation_data = None\<rparr> 0.6 4 = Inr (moon, pivot)
     \<and> animation_data pivot = Some a
     \<and> map key_table (fcurves a) = [[(1, 0), (300, 0)], [(1, 0), (300, 0)], [(1, 0), (300, 2 * pi)]]"
proof -
  from add_moon_orbit [of "''BEZIER''"
      "\<lparr>obj_name = ''Planet'', location = (0, 0, 0), rotation_euler = (0, 0, 0), parent = None,
        mesh_radius = Some 2, animation_data = None\<rparr>" "0.6" 4
      "\<lparr>scene_name = ''Scene'', frame_start = 0, frame_end = 250, fps = 25\<rparr>"]
  obtain moon pivot a where
    m: "add_moon ''BEZIER''
       \<lparr>obj_name = ''Planet'', location = (0, 0, 0), rotation_euler = (0, 0, 0), parent = None,
        mesh_radius = Some 2, animation_data = None\<rparr> 0.6 4 = Inr (moon, pivot)"
    and a: "animation_data pivot = Some a"
    and k: "map (\<lambda>c. (data_path c, array_index c, key_table c)) (fcurves a) =
         [(''rotation_euler'', 0, [(1, 0), (300, 0)]),
          (''rotation_euler'', 1, [(1, 0), (300, 0)]),
          (''rotation_euler'', 2, [(1, 0), (300, 2 * pi)])]"
    by (auto simp: configure_scene_def FRAME_START_def FRAME_END_def)
  have "map key_table (fcurves a) = map (\<lambda>t. snd (snd t)) (map (\<lambda>c. (data_path c, array_index c, key_table c)) (fcurves a))"
    by simp
  also have "\<dots> = [[(1, 0), (300, 0)], [(1, 0), (300, 0)], [(1, 0), (300, 2 * pi)]]"
    unfolding k by simp
  finally have t: "map key_table (fcurves a) = [[(1, 0), (300, 0)], [(1, 0), (300, 0)], [(1, 0), (300, 2 * pi)]]" .
  show ?thesis
  proof (intro exI conjI)
    show "add_moon ''BEZIER''
       \<lparr>obj_name = ''Planet'', location = (0, 0, 0), rotation_euler = (0, 0, 0), parent = None,
        mesh_radius = Some 2, animation_data = None\<rparr> 0.6 4 = Inr (moon, pivot)"
      by (rule m)
    show "animation_data pivot = Some a" by (rule a)
    show "map key_table (fcurves a) = [[(1, 0), (300, 0)], [(1, 0), (300, 0)], [(1, 0), (300, 2 * pi)]]"
      by (rule t)
  qed
qed

section \<open>Interpolation of a whole action\<close>

text \<open>
  C10. After \<open>apply_interp\<close> on an action, every keyframe point of every curve of the
  action has one and the same interpolation mode, the negotiated one. The call returns
  on every action, and keeps the curves and the number of points of each.
\<close>

theorem apply_interp_uniform:
  "\<exists>a'. apply_interp enum_items (Some a) desired = Inr a'
     \<and> (\<forall>fcu \<in> set (fcurves a'). \<forall>kp \<in> set (keyframe_points fcu).
           interpolation kp = negotiate_interpolation desired (probe_allowed enum_items (fcurves a)))
     \<and> length (fcurves a') = length (fcurves a)
     \<and> (\<forall>i < length (fcurves a).
           length (keyframe_points (fcurves a' ! i)) = length (keyframe_points (fcurves a ! i)))"
  by (simp add: apply_interp_def Let_def set_interpolation_curves_length
      set_interpolation_curves_nth) (blast dest: set_interpolation_curves_all)

theorem apply_interp_uniform_witness:
  "\<exists>a'. apply_interp (\<lambda>k. Inr {''CONSTANT'', ''LINEAR'', ''BEZIER''})
       (Some \<lparr>fcurves =
          [\<lparr>data_path = ''location'', array_index = 0, keyframe_points =
              [\<lparr>kp_frame = 1, kp_value = 0, interpolation = ''CONSTANT''\<rparr>,
               \<lparr>kp_frame = 300, kp_value = 6, interpolation = ''LINEAR''\<rparr>]\<rparr>,
           \<lparr>data_path = ''location'', array_index = 1, keyframe_points =
              [\<lparr>kp_frame = 1, kp_value = 0, interpolation = ''BEZIER''\<rparr>]\<rparr>]\<rparr>) ''SINE'' = Inr a'
     \<and> map (\<lambda>c. map interpolation (keyframe_points c)) (fcurves a') =
         [[''BEZIER'', ''BEZIER''], [''BEZIER'']]"
proof -
  let ?a = "\<lparr>fcurves =
          [\<lparr>data_path = ''location'', array_index = 0, keyframe_points =
              [\<lparr>kp_frame = 1, kp_value = 0, interpolation = ''CONSTANT''\<rparr>,
               \<lparr>kp_frame = 300, kp_value = 6, interpolation = ''LINEAR''\<rparr>]\<rparr>,
           \<lparr>data_path = ''location'', array_index = 1, keyframe_points =
              [\<lparr>kp_frame = 1, kp_value = 0, interpolation = ''BEZIER''\<rparr>]\<rparr>]\<rparr>"
  from apply_interp_uniform [of "\<lambda>k. Inr {''CONSTANT'', ''LINEAR'', ''BEZIER''}" ?a "''SINE''"]
  obtain a' where r: "apply_interp (\<lambda>k. Inr {''CONSTANT'', ''LINEAR'', ''BEZIER''}) (Some ?a) ''SINE'' = Inr a'"
    by blast
  have e: "apply_interp (\<lambda>k. Inr {''CONSTANT'', ''LINEAR'', ''BEZIER''}) (Some ?a) ''SINE'' =
      Inr \<lparr>fcurves =
          [\<lparr>data_path = ''location'', array_index = 0, keyframe_points =
              [\<lparr>kp_frame = 1, kp_value = 0, interpolation = ''BEZIER''\<rparr>,
               \<lparr>kp_frame = 300, kp_value = 6, interpolation = ''BEZIER''\<rparr>]\<rparr>,
           \<lparr>data_path = ''location'', array_index = 1, keyframe_points =
              [\<lparr>kp_frame = 1, kp_value = 0, interpolation = ''BEZIER''\<rparr>]\<rparr>]\<rparr>"
    by (simp add: apply_interp_def negotiate_interpolation_def Let_def)
  have "a' = \<lparr>fcurves =
          [\<lparr>data_path = ''location'', array_index = 0, keyframe_points =
              [\<lparr>kp_frame = 1, kp_value = 0, interpolation = ''BEZIER''\<rparr>,
               \<lparr>kp_frame = 300, kp_value = 6, interpolation = ''BEZIER''\<rparr>]\<rparr>,
           \<lparr>data_path = ''location'', array_index = 1, keyframe_points =
              [\<lparr>kp_frame = 1, kp_value = 0, interpolation = ''BEZIER''\<rparr>]\<rparr>]\<rparr>"
    using r unfolding e by (rule sum.inject [THEN iffD1, symmetric])
  then have m: "map (\<lambda>c. map interpolation (keyframe_points c)) (fcurves a') =
         [[''BEZIER'', ''BEZIER''], [''BEZIER'']]"
    by simp
  show ?thesis
  proof (intro exI conjI)
    show "apply_interp (\<lambda>k. Inr {''CONSTANT'', ''LINEAR'', ''BEZIER''}) (Some ?a) ''SINE'' = Inr a'"
      by (rule r)
    show "map (\<lambda>c. map interpolation (keyframe_points c)) (fcurves a') =
         [[''BEZIER'', ''BEZIER''], [''BEZIER'']]"
      by (rule m)
  qed
qed

end
